theory Spec2Isabelle
  imports Main "HOL-Library.Sublist"
begin

section \<open>Python values, dictionaries and exceptions\<close>

text \<open>
  The user store is what \<open>json.load\<close> returns for \<open>usuarios.json\<close>: a list of
  dictionaries with string keys. The field values are modelled as JSON scalars (null,
  booleans, integers, strings); the seeding script \<open>create_users.py\<close> writes strings only.
  A dictionary is an association list in insertion order, read from the left.
\<close>

datatype pyval = PNone | PBool bool | PInt int | PStr string

type_synonym dict = "(string \<times> pyval) list"

datatype error = KeyError string | TypeError | ValueError

text \<open>Python's \<open>==\<close> on scalars: \<open>bool\<close> is a subclass of \<open>int\<close>, so \<open>True == 1\<close>.\<close>

fun py_eq :: "pyval \<Rightarrow> pyval \<Rightarrow> bool" where
  "py_eq PNone PNone = True"
| "py_eq (PBool a) (PBool b) = (a = b)"
| "py_eq (PInt a) (PInt b) = (a = b)"
| "py_eq (PBool a) (PInt b) = ((if a then 1 else 0) = b)"
| "py_eq (PInt a) (PBool b) = (a = (if b then 1 else 0))"
| "py_eq (PStr a) (PStr b) = (a = b)"
| "py_eq _ _ = False"

text \<open>Truth value of a scalar, as \<open>not x\<close> tests it.\<close>

fun truthy :: "pyval \<Rightarrow> bool" where
  "truthy PNone = False"
| "truthy (PBool b) = b"
| "truthy (PInt n) = (n \<noteq> 0)"
| "truthy (PStr s) = (s \<noteq> [])"

text \<open>\<open>d.get(k)\<close>: the value, or \<open>None\<close> when the key is absent.\<close>

definition dict_get :: "dict \<Rightarrow> string \<Rightarrow> pyval" where
  "dict_get d k = (case map_of d k of None \<Rightarrow> PNone | Some v \<Rightarrow> v)"

text \<open>\<open>d[k]\<close>: raises \<open>KeyError\<close> when the key is absent.\<close>

definition getitem :: "dict \<Rightarrow> string \<Rightarrow> error + pyval" where
  "getitem d k = (case map_of d k of None \<Rightarrow> Inl (KeyError k) | Some v \<Rightarrow> Inr v)"

text \<open>\<open>d[k] = v\<close>: overwrites in place, or appends a new key.\<close>

fun setitem :: "dict \<Rightarrow> string \<Rightarrow> pyval \<Rightarrow> dict" where
  "setitem [] k v = [(k, v)]"
| "setitem ((k', v') # d) k v =
     (if k' = k then (k, v) # d else (k', v') # setitem d k v)"

text \<open>The request body of \<open>login\<close> is a \<open>Dict[str, str]\<close>; \<open>data.get(k)\<close> is a string or \<open>None\<close>.\<close>

definition data_get :: "(string \<times> string) list \<Rightarrow> string \<Rightarrow> pyval" where
  "data_get data k = (case map_of data k of None \<Rightarrow> PNone | Some s \<Rightarrow> PStr s)"

text \<open>
  A list comprehension \<open>[u for u in us if c(u)]\<close> whose condition may raise: the first
  exception, in list order, ends it.
\<close>

fun comprehension :: "('a \<Rightarrow> error + bool) \<Rightarrow> 'a list \<Rightarrow> error + 'a list" where
  "comprehension c [] = Inr []"
| "comprehension c (u # us) =
     (case c u of
        Inl e \<Rightarrow> Inl e
      | Inr b \<Rightarrow>
          (case comprehension c us of
             Inl e \<Rightarrow> Inl e
           | Inr r \<Rightarrow> Inr (if b then u # r else r)))"

section \<open>Responses and the state a handler works on\<close>

datatype content = Obj dict | Arr "dict list"

text \<open>
  \<open>Response(content, status_code=...)\<close>. The handlers give a status code only on failure;
  \<open>None\<close> is the success status the framework fills in for the route.
\<close>

datatype response = Response (content: content) (status_code: "nat option")

definition HTTP_401_UNAUTHORIZED :: nat where
  "HTTP_401_UNAUTHORIZED = 401"

text \<open>
  The status that reaches the client. Litestar sends a \<open>Response\<close> that has no
  \<open>status_code\<close> with the default status of its route: 200 for a \<open>@get\<close> route, 201 for a
  \<open>@post\<close> route. \<open>login\<close> and \<open>logout\<close> are \<open>@post\<close> routes, \<open>me\<close> and \<open>list_users\<close> are
  \<open>@get\<close> routes.
\<close>

datatype http_method = GET | POST

definition default_status :: "http_method \<Rightarrow> nat" where
  "default_status m = (case m of GET \<Rightarrow> 200 | POST \<Rightarrow> 201)"

definition sent_status :: "http_method \<Rightarrow> response \<Rightarrow> nat" where
  "sent_status m r = (case status_code r of None \<Rightarrow> default_status m | Some s \<Rightarrow> s)"

text \<open>
  The module-level list \<open>USERS\<close> and the session of the request. A handler returns its
  response, or the exception it raised, together with the state it leaves behind.
\<close>

record state =
  USERS :: "dict list"
  session :: dict

section \<open>Helper functions of \<open>app/main.py\<close>\<close>

fun find_user_by_username :: "dict list \<Rightarrow> pyval \<Rightarrow> error + dict option" where
  "find_user_by_username [] username = Inr None"
| "find_user_by_username (u # us) username =
     (case getitem u ''username'' of
        Inl e \<Rightarrow> Inl e
      | Inr n \<Rightarrow> if py_eq n username then Inr (Some u) else find_user_by_username us username)"

text \<open>
  \<open>next((u for u in USERS if u["id"] == user_id), None)\<close>, written inline in \<open>me\<close> and
  \<open>list_users\<close>: the generator stops at the first match.
\<close>

fun next_user_with_id :: "dict list \<Rightarrow> pyval \<Rightarrow> error + dict option" where
  "next_user_with_id [] user_id = Inr None"
| "next_user_with_id (u # us) user_id =
     (case getitem u ''id'' of
        Inl e \<Rightarrow> Inl e
      | Inr i \<Rightarrow> if py_eq i user_id then Inr (Some u) else next_user_with_id us user_id)"

definition filter_users_for_role :: "dict list \<Rightarrow> dict \<Rightarrow> error + dict list" where
  "filter_users_for_role users auth_user =
     (case getitem auth_user ''role'' of
        Inl e \<Rightarrow> Inl e
      | Inr role \<Rightarrow>
          if py_eq role (PStr ''admin'') then Inr users
          else if py_eq role (PStr ''supervisor'') then
            comprehension
              (\<lambda>u. case getitem u ''role'' of
                      Inl e \<Rightarrow> Inl e
                    | Inr r \<Rightarrow> Inr (\<not> py_eq r (PStr ''admin'')))
              users
          else
            comprehension
              (\<lambda>u. case getitem u ''id'' of
                      Inl e \<Rightarrow> Inl e
                    | Inr i \<Rightarrow>
                        (case getitem auth_user ''id'' of
                           Inl e \<Rightarrow> Inl e
                         | Inr j \<Rightarrow> Inr (py_eq i j)))
              users)"

text \<open>\<open>{k: v for k, v in user.items() if k != "password"}\<close>\<close>

definition safe_user :: "dict \<Rightarrow> dict" where
  "safe_user user = filter (\<lambda>(k, v). k \<noteq> ''password'') user"

section \<open>Password verification\<close>

text \<open>
  \<open>bcrypt.verify(secret, hash)\<close> belongs to passlib, not to this repository. Its answer on
  two strings is the parameter \<open>chk\<close>, which may raise (a malformed hash is a
  \<open>ValueError\<close>). Passlib raises \<open>TypeError\<close> when the secret or the hash is not a string.
\<close>

type_synonym verifier = "string \<Rightarrow> string \<Rightarrow> error + bool"

fun bcrypt_verify :: "verifier \<Rightarrow> pyval \<Rightarrow> pyval \<Rightarrow> error + bool" where
  "bcrypt_verify chk (PStr secret) (PStr hash) = chk secret hash"
| "bcrypt_verify chk _ _ = Inl TypeError"

section \<open>The route handlers\<close>

definition credenciales_invalidas :: string where
  "credenciales_invalidas = ''Credenciales inv'' @ [CHR 0xC3, CHR 0xA1] @ ''lidas''"

definition invalid_credentials :: response where
  "invalid_credentials =
     Response (Obj [(''error'', PStr credenciales_invalidas)]) (Some HTTP_401_UNAUTHORIZED)"

definition no_autenticado :: response where
  "no_autenticado =
     Response (Obj [(''error'', PStr ''No autenticado'')]) (Some HTTP_401_UNAUTHORIZED)"

definition usuario_no_encontrado :: response where
  "usuario_no_encontrado =
     Response (Obj [(''error'', PStr ''Usuario no encontrado'')]) (Some HTTP_401_UNAUTHORIZED)"

text \<open>
  \<open>not user or not bcrypt.verify(password, user["password"])\<close>: \<open>not user\<close> holds for
  \<open>None\<close> and for an empty dictionary, and only otherwise is \<open>user["password"]\<close> read and
  the verification called.
\<close>

definition login :: "verifier \<Rightarrow> (string \<times> string) list \<Rightarrow> state \<Rightarrow> (error + response) \<times> state" where
  "login chk data st =
     (let username = data_get data ''username'';
          password = data_get data ''password''
      in case find_user_by_username (USERS st) username of
           Inl e \<Rightarrow> (Inl e, st)
         | Inr None \<Rightarrow> (Inr invalid_credentials, st)
         | Inr (Some user) \<Rightarrow>
             if user = [] then (Inr invalid_credentials, st)
             else
               (case getitem user ''password'' of
                  Inl e \<Rightarrow> (Inl e, st)
                | Inr hash \<Rightarrow>
                    (case bcrypt_verify chk password hash of
                       Inl e \<Rightarrow> (Inl e, st)
                     | Inr ok \<Rightarrow>
                         if \<not> ok then (Inr invalid_credentials, st)
                         else
                           (case getitem user ''id'' of
                              Inl e \<Rightarrow> (Inl e, st)
                            | Inr i \<Rightarrow>
                                let st' = st\<lparr>session := setitem (session st) ''user_id'' i\<rparr>
                                in (case getitem user ''role'' of
                                      Inl e \<Rightarrow> (Inl e, st')
                                    | Inr role \<Rightarrow>
                                        (Inr (Response
                                                (Obj [(''message'', PStr ''Login exitoso''),
                                                      (''role'', role)])
                                                None),
                                         st'))))))"

definition logout :: "state \<Rightarrow> (error + response) \<times> state" where
  "logout st =
     (Inr (Response (Obj [(''message'', PStr ''Logout exitoso'')]) None),
      st\<lparr>session := []\<rparr>)"

definition me :: "state \<Rightarrow> (error + response) \<times> state" where
  "me st =
     (let user_id = dict_get (session st) ''user_id''
      in if \<not> truthy user_id then (Inr no_autenticado, st)
         else
           (case next_user_with_id (USERS st) user_id of
              Inl e \<Rightarrow> (Inl e, st)
            | Inr None \<Rightarrow> (Inr usuario_no_encontrado, st)
            | Inr (Some user) \<Rightarrow>
                if user = [] then (Inr usuario_no_encontrado, st)
                else (Inr (Response (Obj (safe_user user)) None), st)))"

definition list_users :: "state \<Rightarrow> (error + response) \<times> state" where
  "list_users st =
     (let user_id = dict_get (session st) ''user_id''
      in if \<not> truthy user_id then (Inr no_autenticado, st)
         else
           (case next_user_with_id (USERS st) user_id of
              Inl e \<Rightarrow> (Inl e, st)
            | Inr None \<Rightarrow> (Inr usuario_no_encontrado, st)
            | Inr (Some auth_user) \<Rightarrow>
                if auth_user = [] then (Inr usuario_no_encontrado, st)
                else
                  (case filter_users_for_role (USERS st) auth_user of
                     Inl e \<Rightarrow> (Inl e, st)
                   | Inr filtered \<Rightarrow>
                       (Inr (Response (Arr (map safe_user filtered)) None), st))))"

section \<open>The seeded store\<close>

text \<open>
  The three users of \<open>create_users.py\<close>. The script draws the ids with \<open>uuid4\<close> and salts the
  hashes, so the ids and hashes here are sample strings, and \<open>seed_verify\<close> answers as
  bcrypt does on the three seeded pairs: true for the password the hash was made from.
\<close>

definition seed_admin :: dict where
  "seed_admin =
     [(''id'', PStr ''id-admin''), (''username'', PStr ''admin''),
      (''password'', PStr ''hash-adminpass''), (''nombre'', PStr ''Administrador''),
      (''email'', PStr ''admin@ejemplo.com''), (''role'', PStr ''admin'')]"

definition seed_super1 :: dict where
  "seed_super1 =
     [(''id'', PStr ''id-super1''), (''username'', PStr ''super1''),
      (''password'', PStr ''hash-superpass''), (''nombre'', PStr ''Supervisor Uno''),
      (''email'', PStr ''super1@ejemplo.com''), (''role'', PStr ''supervisor'')]"

definition seed_usuario1 :: dict where
  "seed_usuario1 =
     [(''id'', PStr ''id-usuario1''), (''username'', PStr ''usuario1''),
      (''password'', PStr ''hash-userpass''), (''nombre'', PStr ''Usuario Uno''),
      (''email'', PStr ''user1@ejemplo.com''), (''role'', PStr ''usuario'')]"

definition seed_users :: "dict list" where
  "seed_users = [seed_admin, seed_super1, seed_usuario1]"

definition seed_verify :: verifier where
  "seed_verify secret hash = Inr (hash = ''hash-'' @ secret)"

text \<open>
  Passlib's bcrypt refuses a secret that contains a NUL byte: it raises a \<open>ValueError\<close>
  before it compares anything. \<open>nul_verify\<close> is \<open>seed_verify\<close> with this check.
\<close>

definition nul_verify :: verifier where
  "nul_verify secret hash =
     (if CHR 0x00 \<in> set secret then Inl ValueError else seed_verify secret hash)"

text \<open>
  Sample states on the seeded store: no session, a session whose \<open>user_id\<close> is no
  longer in the store, and the session of the seeded supervisor after a login.
\<close>

definition empty_state :: state where
  "empty_state = \<lparr>USERS = seed_users, session = []\<rparr>"

definition dangling_state :: state where
  "dangling_state = \<lparr>USERS = seed_users, session = [(''user_id'', PStr ''id-removed'')]\<rparr>"


definition super1_state :: state where
  "super1_state = \<lparr>USERS = seed_users, session = [(''user_id'', PStr ''id-super1'')]\<rparr>"

section \<open>Well-formed stores\<close>

text \<open>
  The handlers read the keys \<open>id\<close>, \<open>username\<close>, \<open>password\<close> and \<open>role\<close> of a record with
  \<open>u[k]\<close>; a record of the data model has them all.
\<close>

definition has_key :: "dict \<Rightarrow> string \<Rightarrow> bool" where
  "has_key d k = (map_of d k \<noteq> None)"

definition wf_user :: "dict \<Rightarrow> bool" where
  "wf_user u =
     (has_key u ''id'' \<and> has_key u ''username'' \<and> has_key u ''password'' \<and> has_key u ''role'')"

definition wf_store :: "dict list \<Rightarrow> bool" where
  "wf_store users = list_all wf_user users"

text \<open>Usernames are unique across the store.\<close>

definition unique_usernames :: "dict list \<Rightarrow> bool" where
  "unique_usernames users = distinct (map (\<lambda>u. dict_get u ''username'') users)"

text \<open>The keys of a dictionary.\<close>

definition keys :: "dict \<Rightarrow> string set" where
  "keys d = fst ` set d"

section \<open>Basic facts\<close>

lemma py_eq_PStr [simp]: "py_eq v (PStr s) = (v = PStr s)"
  by (cases v) simp_all

lemma py_eq_PNone [simp]: "py_eq v PNone = (v = PNone)"
  by (cases v) simp_all

lemma getitem_has_key: "has_key d k \<Longrightarrow> getitem d k = Inr (dict_get d k)"
  by (auto simp: has_key_def getitem_def dict_get_def)

lemma getitem_wf:
  assumes "wf_user u"
  shows "getitem u ''id'' = Inr (dict_get u ''id'')"
    and "getitem u ''username'' = Inr (dict_get u ''username'')"
    and "getitem u ''password'' = Inr (dict_get u ''password'')"
    and "getitem u ''role'' = Inr (dict_get u ''role'')"
  using assms by (simp_all add: wf_user_def getitem_has_key)

lemma wf_user_nonempty: "wf_user u \<Longrightarrow> u \<noteq> []"
  by (auto simp: wf_user_def has_key_def)

lemma wf_store_Nil [simp]: "wf_store []"
  by (simp add: wf_store_def)

lemma wf_store_Cons [simp]: "wf_store (u # us) = (wf_user u \<and> wf_store us)"
  by (simp add: wf_store_def)

lemma wf_store_member: "wf_store us \<Longrightarrow> u \<in> set us \<Longrightarrow> wf_user u"
  by (simp add: wf_store_def list_all_iff)

lemma map_of_setitem: "map_of (setitem d k v) = (map_of d)(k \<mapsto> v)"
  by (induction d k v rule: setitem.induct) (auto simp: fun_eq_iff)

lemma dict_get_setitem: "dict_get (setitem d k v) k' = (if k' = k then v else dict_get d k')"
  by (simp add: dict_get_def map_of_setitem)

lemma keys_setitem: "keys (setitem d k v) = insert k (keys d)"
  by (induction d k v rule: setitem.induct) (auto simp: keys_def)

lemma getitem_Inr_nonempty: "getitem u k = Inr v \<Longrightarrow> u \<noteq> []"
  by (auto simp: getitem_def)

lemma find_user_by_username_member:
  "find_user_by_username us n = Inr (Some u) \<Longrightarrow> u \<in> set us \<and> u \<noteq> []"
  by (induction us) (auto split: sum.splits if_splits dest: getitem_Inr_nonempty)

lemma next_user_with_id_member:
  "next_user_with_id us i = Inr (Some u) \<Longrightarrow> u \<in> set us \<and> u \<noteq> []"
  by (induction us) (auto split: sum.splits if_splits dest: getitem_Inr_nonempty)

lemma find_registered:
  assumes "wf_store us" and "unique_usernames us" and "u \<in> set us"
    and "dict_get u ''username'' = PStr name"
  shows "find_user_by_username us (PStr name) = Inr (Some u)"
  using assms
proof (induction us)
  case Nil
  then show ?case by simp
next
  case (Cons a us)
  show ?case
  proof (cases "dict_get a ''username'' = PStr name")
    case True
    have "u = a"
    proof (rule ccontr)
      assume "u \<noteq> a"
      with Cons.prems(3) have "u \<in> set us" by simp
      then have "PStr name \<in> (\<lambda>u. dict_get u ''username'') ` set us"
        using Cons.prems(4) by force
      with Cons.prems(2) True show False by (simp add: unique_usernames_def)
    qed
    with True Cons.prems(1) show ?thesis by (simp add: getitem_wf)
  next
    case False
    with Cons.prems have "u \<in> set us" by auto
    moreover from Cons.prems(2) have "unique_usernames us" by (simp add: unique_usernames_def)
    ultimately have "find_user_by_username us (PStr name) = Inr (Some u)"
      using Cons.IH Cons.prems(1,4) by simp
    with False Cons.prems(1) show ?thesis by (simp add: getitem_wf)
  qed
qed

lemma find_unknown:
  assumes "wf_store us" and "\<forall>u \<in> set us. \<not> py_eq (dict_get u ''username'') n"
  shows "find_user_by_username us n = Inr None"
  using assms by (induction us) (simp_all add: getitem_wf)

lemma comprehension_filter:
  "comprehension c us = Inr r \<Longrightarrow> r = filter (\<lambda>u. c u = Inr True) us"
  by (induction us arbitrary: r) (auto split: sum.splits if_splits)

lemma comprehension_total:
  "\<forall>u \<in> set us. c u = Inr (P u) \<Longrightarrow> comprehension c us = Inr (filter P us)"
  by (induction us) simp_all

lemma filter_users_for_role_filter:
  "filter_users_for_role us p = Inr r \<Longrightarrow> \<exists>P. r = filter P us"
proof -
  assume a: "filter_users_for_role us p = Inr r"
  have triv: "us = filter (\<lambda>u. True) us" by simp
  from a show ?thesis
    unfolding filter_users_for_role_def
    by (auto split: sum.splits if_splits dest!: comprehension_filter intro: exI [of _ "\<lambda>u. True"])
qed

lemma keys_safe_user: "''password'' \<notin> keys (safe_user u)"
  by (auto simp: keys_def safe_user_def)

lemma map_of_safe_user: "k \<noteq> ''password'' \<Longrightarrow> map_of (safe_user u) k = map_of u k"
  unfolding safe_user_def by (induction u) auto

text \<open>Unfolding sets for evaluating the handlers on the seeded store.\<close>

lemmas seed_defs = seed_users_def seed_admin_def seed_super1_def seed_usuario1_def

lemmas eval_defs = dict_get_def getitem_def data_get_def safe_user_def
  no_autenticado_def usuario_no_encontrado_def invalid_credentials_def
  HTTP_401_UNAUTHORIZED_def wf_user_def has_key_def unique_usernames_def keys_def Let_def

lemmas status_defs = sent_status_def default_status_def

section \<open>The claims\<close>



text \<open>
  C9. No endpoint changes the user store: whatever \<open>login\<close>, \<open>logout\<close>, \<open>me\<close> and \<open>users\<close>
  return or raise, the list \<open>USERS\<close> they leave behind is the list they started with.
\<close>

theorem store_unchanged:
  "USERS (snd (login chk data st)) = USERS st
   \<and> USERS (snd (logout st)) = USERS st
   \<and> USERS (snd (me st)) = USERS st
   \<and> USERS (snd (list_users st)) = USERS st"
  by (simp add: login_def logout_def me_def list_users_def Let_def
      split: sum.splits option.splits)

text \<open>
  C1. No record that \<open>me\<close> or \<open>users\<close> returns has the key \<open>password\<close>, the stored
  credential hash: in every state, the body of a success response of \<open>me\<close> is a record of
  the store without that key, every element of the body of a success response of \<open>users\<close>
  is one, and every other key of the record is there with its value.
\<close>

theorem me_users_omit_hash:
  "(fst (me st) = Inr resp \<and> status_code resp = None \<longrightarrow>
      (\<exists>u \<in> set (USERS st). content resp = Obj (safe_user u)
          \<and> ''password'' \<notin> keys (safe_user u)
          \<and> (\<forall>k. k \<noteq> ''password'' \<longrightarrow> map_of (safe_user u) k = map_of u k)))
   \<and> (fst (list_users st) = Inr resp' \<and> status_code resp' = None \<longrightarrow>
      (\<exists>ds. content resp' = Arr ds
          \<and> (\<forall>d \<in> set ds. ''password'' \<notin> keys d
                \<and> (\<exists>u \<in> set (USERS st). d = safe_user u
                      \<and> (\<forall>k. k \<noteq> ''password'' \<longrightarrow> map_of d k = map_of u k)))))"
proof (intro conjI impI)
  assume a: "fst (me st) = Inr resp \<and> status_code resp = None"
  then obtain u where "next_user_with_id (USERS st) (dict_get (session st) ''user_id'') = Inr (Some u)"
    and r: "resp = Response (Obj (safe_user u)) None"
    by (auto simp: me_def Let_def no_autenticado_def usuario_no_encontrado_def
        split: if_splits sum.splits option.splits)
  then have "u \<in> set (USERS st)" by (auto dest: next_user_with_id_member)
  with r show "\<exists>u \<in> set (USERS st). content resp = Obj (safe_user u)
          \<and> ''password'' \<notin> keys (safe_user u)
          \<and> (\<forall>k. k \<noteq> ''password'' \<longrightarrow> map_of (safe_user u) k = map_of u k)"
    by (auto simp: keys_safe_user map_of_safe_user)
next
  assume a: "fst (list_users st) = Inr resp' \<and> status_code resp' = None"
  then obtain p filtered where "filter_users_for_role (USERS st) p = Inr filtered"
    and r: "resp' = Response (Arr (map safe_user filtered)) None"
    by (auto simp: list_users_def Let_def no_autenticado_def usuario_no_encontrado_def
        split: if_splits sum.splits option.splits)
  then obtain P where "filtered = filter P (USERS st)"
    by (auto dest: filter_users_for_role_filter)
  with r show "\<exists>ds. content resp' = Arr ds
          \<and> (\<forall>d \<in> set ds. ''password'' \<notin> keys d
                \<and> (\<exists>u \<in> set (USERS st). d = safe_user u
                      \<and> (\<forall>k. k \<noteq> ''password'' \<longrightarrow> map_of d k = map_of u k)))"
    by (auto simp: keys_safe_user map_of_safe_user)
qed

theorem me_users_omit_hash_witness:
  "fst (me super1_state) = Inr (Response (Obj (safe_user seed_super1)) None)
   \<and> fst (list_users super1_state)
       = Inr (Response (Arr [safe_user seed_super1, safe_user seed_usuario1]) None)
   \<and> ''password'' \<notin> keys (safe_user seed_super1)
   \<and> ''password'' \<notin> keys (safe_user seed_usuario1)
   \<and> map_of (safe_user seed_super1) ''role'' = Some (PStr ''supervisor'')"
proof -
  have m: "fst (me super1_state) = Inr (Response (Obj (safe_user seed_super1)) None)"
    by (simp add: me_def super1_state_def seed_defs eval_defs)
  have l: "fst (list_users super1_state)
       = Inr (Response (Arr [safe_user seed_super1, safe_user seed_usuario1]) None)"
    by (simp add: list_users_def filter_users_for_role_def super1_state_def seed_defs eval_defs)
  from me_users_omit_hash [of super1_state "Response (Obj (safe_user seed_super1)) None"
      "Response (Arr [safe_user seed_super1, safe_user seed_usuario1]) None"] m l
  have "''password'' \<notin> keys (safe_user seed_super1)
      \<and> ''password'' \<notin> keys (safe_user seed_usuario1)"
    by auto
  moreover have "map_of (safe_user seed_super1) ''role'' = Some (PStr ''supervisor'')"
    by (simp add: seed_defs eval_defs)
  ultimately show ?thesis using m l by blast
qed

text \<open>
  C2. The visibility policy is total on a well-formed store and principal: it returns the
  whole store for the role \<open>admin\<close>; the records whose role is not \<open>admin\<close> for the role
  \<open>supervisor\<close>; and for every other role the records whose id equals the principal's,
  the three tested in this order.
\<close>

theorem filter_users_for_role_policy:
  assumes "wf_store users" and "wf_user p"
  shows "filter_users_for_role users p =
           Inr (if dict_get p ''role'' = PStr ''admin'' then users
                else if dict_get p ''role'' = PStr ''supervisor'' then
                  filter (\<lambda>u. dict_get u ''role'' \<noteq> PStr ''admin'') users
                else filter (\<lambda>u. py_eq (dict_get u ''id'') (dict_get p ''id'')) users)"
proof -
  have role: "\<forall>u \<in> set users.
      (case getitem u ''role'' of Inl e \<Rightarrow> Inl e
       | Inr r \<Rightarrow> Inr (\<not> py_eq r (PStr ''admin'')))
      = Inr (dict_get u ''role'' \<noteq> PStr ''admin'')"
    using assms(1) by (auto simp: getitem_wf dest: wf_store_member)
  have ident: "\<forall>u \<in> set users.
      (case getitem u ''id'' of Inl e \<Rightarrow> Inl e
       | Inr i \<Rightarrow> (case getitem p ''id'' of Inl e \<Rightarrow> Inl e | Inr j \<Rightarrow> Inr (py_eq i j)))
      = Inr (py_eq (dict_get u ''id'') (dict_get p ''id''))"
    using assms by (auto simp: getitem_wf dest: wf_store_member)
  show ?thesis
    unfolding filter_users_for_role_def
    by (simp add: getitem_wf [OF assms(2)] comprehension_total [OF role]
        comprehension_total [OF ident])
qed

theorem filter_users_for_role_policy_witness:
  "wf_store seed_users \<and> wf_user seed_super1
   \<and> filter_users_for_role seed_users seed_super1 = Inr [seed_super1, seed_usuario1]"
proof -
  have s: "wf_store seed_users" by (simp add: seed_defs eval_defs)
  have p: "wf_user seed_super1" by (simp add: seed_defs eval_defs)
  show ?thesis
    using s p filter_users_for_role_policy [OF s p]
    by (simp add: seed_defs eval_defs)
qed

text \<open>
  C8. The records \<open>users\<close> returns are in store order: the body of a success response is
  the store filtered by some predicate, each record without its hash, so it is a
  subsequence of the stripped store: nothing is reordered, duplicated or inserted.
\<close>

theorem list_users_store_order:
  assumes "fst (list_users st) = Inr resp" and "status_code resp = None"
  shows "(\<exists>P. content resp = Arr (map safe_user (filter P (USERS st))))
       \<and> (\<exists>ds. content resp = Arr ds \<and> subseq ds (map safe_user (USERS st)))"
proof (intro conjI)
  from assms obtain p filtered where "filter_users_for_role (USERS st) p = Inr filtered"
    and r: "resp = Response (Arr (map safe_user filtered)) None"
    by (auto simp: list_users_def Let_def no_autenticado_def usuario_no_encontrado_def
        split: if_splits sum.splits option.splits)
  then obtain P where f: "filtered = filter P (USERS st)"
    by (auto dest: filter_users_for_role_filter)
  from r f show "\<exists>P. content resp = Arr (map safe_user (filter P (USERS st)))" by auto
  from r f show "\<exists>ds. content resp = Arr ds \<and> subseq ds (map safe_user (USERS st))"
    by (auto intro: subseq_map)
qed

theorem list_users_store_order_witness:
  "fst (list_users super1_state)
     = Inr (Response (Arr [safe_user seed_super1, safe_user seed_usuario1]) None)
   \<and> subseq [safe_user seed_super1, safe_user seed_usuario1] (map safe_user seed_users)"
proof -
  have l: "fst (list_users super1_state)
       = Inr (Response (Arr [safe_user seed_super1, safe_user seed_usuario1]) None)"
    by (simp add: list_users_def filter_users_for_role_def super1_state_def seed_defs eval_defs)
  from list_users_store_order [OF l]
  have "subseq [safe_user seed_super1, safe_user seed_usuario1]
          (map safe_user (USERS super1_state))"
    by simp
  then show ?thesis using l by (simp add: super1_state_def)
qed

text \<open>
  C3, as stated: \<open>me\<close> and \<open>users\<close> fail with the same status and the same payload when
  the session has no \<open>user_id\<close> and when its \<open>user_id\<close> resolves to no record. On the
  seeded store the two causes give different payloads.
\<close>

theorem unauthenticated_payloads_differ:
  "fst (me empty_state) = Inr no_autenticado
   \<and> fst (me dangling_state) = Inr usuario_no_encontrado
   \<and> fst (list_users empty_state) = Inr no_autenticado
   \<and> fst (list_users dangling_state) = Inr usuario_no_encontrado
   \<and> content no_autenticado \<noteq> content usuario_no_encontrado"
  by (simp add: me_def list_users_def empty_state_def dangling_state_def seed_defs eval_defs)

text \<open>
  C3, amended: in both cases \<open>me\<close> and \<open>users\<close> answer 401 with an \<open>error\<close> payload and
  leave the state as it was; the message is \<open>No autenticado\<close> when the session has no
  \<open>user_id\<close> (or one that is false as a truth value), and \<open>Usuario no encontrado\<close> when the
  \<open>user_id\<close> resolves to no record of the store.
\<close>

theorem unauthenticated_responses:
  "(\<not> truthy (dict_get (session st) ''user_id'') \<longrightarrow>
      me st = (Inr no_autenticado, st) \<and> list_users st = (Inr no_autenticado, st))
   \<and> (truthy (dict_get (session st) ''user_id'')
        \<and> next_user_with_id (USERS st) (dict_get (session st) ''user_id'') = Inr None \<longrightarrow>
      me st = (Inr usuario_no_encontrado, st)
      \<and> list_users st = (Inr usuario_no_encontrado, st))
   \<and> status_code no_autenticado = Some 401
   \<and> status_code usuario_no_encontrado = Some 401
   \<and> content no_autenticado = Obj [(''error'', PStr ''No autenticado'')]
   \<and> content usuario_no_encontrado = Obj [(''error'', PStr ''Usuario no encontrado'')]"
  by (simp add: me_def list_users_def Let_def no_autenticado_def usuario_no_encontrado_def
      HTTP_401_UNAUTHORIZED_def)

theorem unauthenticated_responses_witness:
  "\<not> truthy (dict_get (session empty_state) ''user_id'')
   \<and> me empty_state = (Inr no_autenticado, empty_state)
   \<and> list_users empty_state = (Inr no_autenticado, empty_state)
   \<and> truthy (dict_get (session dangling_state) ''user_id'')
   \<and> next_user_with_id (USERS dangling_state) (dict_get (session dangling_state) ''user_id'')
       = Inr None
   \<and> me dangling_state = (Inr usuario_no_encontrado, dangling_state)
   \<and> list_users dangling_state = (Inr usuario_no_encontrado, dangling_state)"
proof -
  have e: "\<not> truthy (dict_get (session empty_state) ''user_id'')"
    by (simp add: empty_state_def dict_get_def)
  have d: "truthy (dict_get (session dangling_state) ''user_id'')
     \<and> next_user_with_id (USERS dangling_state) (dict_get (session dangling_state) ''user_id'')
         = Inr None"
    by (simp add: dangling_state_def seed_defs eval_defs)
  show ?thesis
    using e d unauthenticated_responses [of empty_state]
      unauthenticated_responses [of dangling_state]
    by blast
qed

text \<open>
  When the verification answers false for a registered user's password, and for a username
  that no record of the store has, \<open>login\<close> returns the same response: status 401 and the
  one payload \<open>invalid_credentials\<close>, with the state unchanged.
\<close>

theorem login_failures_identical:
  assumes "wf_store (USERS st)" and "unique_usernames (USERS st)"
    and "U \<in> set (USERS st)" and "dict_get U ''username'' = PStr name"
    and "map_of data ''username'' = Some name" and "map_of data ''password'' = Some p"
    and "bcrypt_verify chk (PStr p) (dict_get U ''password'') = Inr False"
    and "map_of data' ''username'' = Some ghost"
    and "\<forall>u \<in> set (USERS st). dict_get u ''username'' \<noteq> PStr ghost"
  shows "login chk data st = (Inr invalid_credentials, st)
       \<and> login chk data' st = (Inr invalid_credentials, st)
       \<and> status_code invalid_credentials = Some 401"
proof -
  have wfU: "wf_user U" using assms(1,3) by (rule wf_store_member)
  have "find_user_by_username (USERS st) (PStr name) = Inr (Some U)"
    using assms(1-4) by (rule find_registered)
  then have 1: "login chk data st = (Inr invalid_credentials, st)"
    using assms(5-7) wfU
    by (simp add: login_def data_get_def getitem_wf wf_user_nonempty)
  have "find_user_by_username (USERS st) (PStr ghost) = Inr None"
    using assms(1,9) by (intro find_unknown) simp_all
  then have 2: "login chk data' st = (Inr invalid_credentials, st)"
    using assms(8) by (simp add: login_def data_get_def)
  show ?thesis using 1 2
    by (simp add: invalid_credentials_def HTTP_401_UNAUTHORIZED_def)
qed

theorem login_failures_identical_witness:
  "login seed_verify [(''username'', ''usuario1''), (''password'', ''wrongpass'')] empty_state
     = (Inr invalid_credentials, empty_state)
   \<and> login seed_verify [(''username'', ''ghost''), (''password'', ''x'')] empty_state
     = (Inr invalid_credentials, empty_state)"
proof -
  have "wf_store (USERS empty_state)" "unique_usernames (USERS empty_state)"
    "seed_usuario1 \<in> set (USERS empty_state)"
    "dict_get seed_usuario1 ''username'' = PStr ''usuario1''"
    "map_of [(''username'', ''usuario1''), (''password'', ''wrongpass'')] ''username''
       = Some ''usuario1''"
    "map_of [(''username'', ''usuario1''), (''password'', ''wrongpass'')] ''password''
       = Some ''wrongpass''"
    "bcrypt_verify seed_verify (PStr ''wrongpass'') (dict_get seed_usuario1 ''password'')
       = Inr False"
    "map_of [(''username'', ''ghost''), (''password'', ''x'')] ''username'' = Some ''ghost''"
    "\<forall>u \<in> set (USERS empty_state). dict_get u ''username'' \<noteq> PStr ''ghost''"
    by (simp_all add: empty_state_def seed_verify_def seed_defs eval_defs)
  from login_failures_identical [OF this] show ?thesis by simp
qed

text \<open>
  When the verification raises for a registered user's password, \<open>login\<close> raises the same
  exception: line 107 calls \<open>bcrypt.verify\<close> with no handler around it.
\<close>

lemma login_verify_raises:
  assumes "wf_store (USERS st)" and "unique_usernames (USERS st)"
    and "U \<in> set (USERS st)" and "dict_get U ''username'' = PStr name"
    and "map_of data ''username'' = Some name" and "map_of data ''password'' = Some p"
    and "bcrypt_verify chk (PStr p) (dict_get U ''password'') = Inl e"
  shows "login chk data st = (Inl e, st)"
proof -
  have wfU: "wf_user U" using assms(1,3) by (rule wf_store_member)
  have "find_user_by_username (USERS st) (PStr name) = Inr (Some U)"
    using assms(1-4) by (rule find_registered)
  then show ?thesis
    using assms(5-7) wfU
    by (simp add: login_def data_get_def getitem_wf wf_user_nonempty)
qed

text \<open>
  C4. A wrong password for a registered user and any password for an unknown username get
  the same 401 response from \<open>login\<close>. On the seeded store, the password that is one NUL
  byte does not verify for \<open>usuario1\<close>, and \<open>login\<close> raises \<open>ValueError\<close> for that user while
  it answers 401 for the unknown username \<open>ghost\<close>: the two are told apart.
\<close>

theorem login_nul_password_distinguishes:
  "fst (login nul_verify [(''username'', ''usuario1''), (''password'', [CHR 0x00])] empty_state)
     = Inl ValueError
   \<and> fst (login nul_verify [(''username'', ''ghost''), (''password'', [CHR 0x00])] empty_state)
     = Inr invalid_credentials
   \<and> bcrypt_verify nul_verify (PStr [CHR 0x00]) (dict_get seed_usuario1 ''password'')
     \<noteq> Inr True"
  by (simp add: login_def nul_verify_def empty_state_def seed_verify_def seed_defs eval_defs)

text \<open>
  For a registered user and a password that verifies against the stored hash, \<open>login\<close>
  returns its success response with the user's role, and the session it leaves has
  \<open>user_id\<close> set to the user's id.
\<close>

theorem login_success:
  assumes "wf_store (USERS st)" and "unique_usernames (USERS st)"
    and "U \<in> set (USERS st)" and "dict_get U ''username'' = PStr name"
    and "map_of data ''username'' = Some name" and "map_of data ''password'' = Some p"
    and "bcrypt_verify chk (PStr p) (dict_get U ''password'') = Inr True"
  shows "fst (login chk data st)
           = Inr (Response (Obj [(''message'', PStr ''Login exitoso''),
                                 (''role'', dict_get U ''role'')]) None)
       \<and> dict_get (session (snd (login chk data st))) ''user_id'' = dict_get U ''id''
       \<and> session (snd (login chk data st)) = setitem (session st) ''user_id'' (dict_get U ''id'')"
proof -
  have wfU: "wf_user U" using assms(1,3) by (rule wf_store_member)
  have "find_user_by_username (USERS st) (PStr name) = Inr (Some U)"
    using assms(1-4) by (rule find_registered)
  then show ?thesis
    using assms(5-7) wfU
    by (simp add: login_def data_get_def getitem_wf wf_user_nonempty dict_get_setitem)
qed

theorem login_success_witness:
  "fst (login seed_verify [(''username'', ''usuario1''), (''password'', ''userpass'')] empty_state)
     = Inr (Response (Obj [(''message'', PStr ''Login exitoso''), (''role'', PStr ''usuario'')])
              None)
   \<and> session (snd (login seed_verify
          [(''username'', ''usuario1''), (''password'', ''userpass'')] empty_state))
     = [(''user_id'', PStr ''id-usuario1'')]"
proof -
  have "wf_store (USERS empty_state)" "unique_usernames (USERS empty_state)"
    "seed_usuario1 \<in> set (USERS empty_state)"
    "dict_get seed_usuario1 ''username'' = PStr ''usuario1''"
    "map_of [(''username'', ''usuario1''), (''password'', ''userpass'')] ''username''
       = Some ''usuario1''"
    "map_of [(''username'', ''usuario1''), (''password'', ''userpass'')] ''password''
       = Some ''userpass''"
    "bcrypt_verify seed_verify (PStr ''userpass'') (dict_get seed_usuario1 ''password'')
       = Inr True"
    by (simp_all add: empty_state_def seed_verify_def seed_defs eval_defs)
  from login_success [OF this] show ?thesis
    by (simp add: empty_state_def seed_defs eval_defs)
qed

text \<open>
  C5. \<open>login\<close> with a registered user's correct password returns status OK, that is 200 (so
  says its docstring too), with the user's role. On the seeded store the response for
  \<open>usuario1\<close> has the role, but no status, and \<open>login\<close> is a \<open>@post\<close> route: the status
  sent is 201.
\<close>

theorem login_success_status_created:
  "fst (login seed_verify [(''username'', ''usuario1''), (''password'', ''userpass'')] empty_state)
     = Inr (Response (Obj [(''message'', PStr ''Login exitoso''), (''role'', PStr ''usuario'')])
              None)
   \<and> sent_status POST
        (Response (Obj [(''message'', PStr ''Login exitoso''), (''role'', PStr ''usuario'')])
           None) = 201
   \<and> sent_status POST
        (Response (Obj [(''message'', PStr ''Login exitoso''), (''role'', PStr ''usuario'')])
           None) \<noteq> 200"
  by (simp add: login_def empty_state_def seed_verify_def seed_defs eval_defs status_defs)

text \<open>
  C7. The session write of \<open>login\<close> is all or nothing: when \<open>login\<close> answers 401 the state
  is the one before the call; the state changes only when \<open>login\<close> returns its success
  response, and then only by setting \<open>user_id\<close> in the session, every other key keeping
  its value.
\<close>

theorem login_session_atomic:
  assumes "wf_store (USERS st)"
  shows "(\<forall>resp. fst (login chk data st) = Inr resp \<and> status_code resp = Some 401
            \<longrightarrow> snd (login chk data st) = st)
       \<and> (snd (login chk data st) \<noteq> st \<longrightarrow>
            (\<exists>resp i. fst (login chk data st) = Inr resp \<and> status_code resp = None
               \<and> snd (login chk data st) = st\<lparr>session := setitem (session st) ''user_id'' i\<rparr>
               \<and> keys (session (snd (login chk data st))) = insert ''user_id'' (keys (session st))
               \<and> (\<forall>k. k \<noteq> ''user_id'' \<longrightarrow>
                     map_of (session (snd (login chk data st))) k = map_of (session st) k)))"
proof (cases "find_user_by_username (USERS st) (data_get data ''username'')")
  case (Inl e)
  then show ?thesis by (simp add: login_def)
next
  case (Inr found)
  show ?thesis
  proof (cases found)
    case None
    with Inr show ?thesis by (simp add: login_def)
  next
    case (Some user)
    with Inr have "user \<in> set (USERS st)" by (auto dest: find_user_by_username_member)
    with assms have wf: "wf_user user" by (rule wf_store_member)
    show ?thesis
    proof (cases "bcrypt_verify chk (data_get data ''password'') (dict_get user ''password'')")
      case (Inl e)
      with Inr Some wf show ?thesis by (simp add: login_def getitem_wf wf_user_nonempty)
    next
      case ok: (Inr ok)
      with Inr Some wf show ?thesis
        by (auto simp: login_def getitem_wf wf_user_nonempty invalid_credentials_def
            HTTP_401_UNAUTHORIZED_def keys_setitem map_of_setitem)
    qed
  qed
qed

theorem login_session_atomic_witness:
  "wf_store (USERS empty_state)
   \<and> snd (login seed_verify [(''username'', ''usuario1''), (''password'', ''wrongpass'')]
          empty_state) = empty_state
   \<and> snd (login seed_verify [(''username'', ''usuario1''), (''password'', ''userpass'')]
          empty_state) = empty_state\<lparr>session := [(''user_id'', PStr ''id-usuario1'')]\<rparr>
   \<and> keys (session (snd (login seed_verify
          [(''username'', ''usuario1''), (''password'', ''userpass'')] empty_state)))
       = {''user_id''}"
proof -
  have w: "wf_store (USERS empty_state)"
    by (simp add: empty_state_def seed_defs eval_defs)
  have f: "fst (login seed_verify [(''username'', ''usuario1''), (''password'', ''wrongpass'')]
          empty_state) = Inr invalid_credentials"
    by (simp add: login_def empty_state_def seed_verify_def seed_defs eval_defs)
  have s: "snd (login seed_verify [(''username'', ''usuario1''), (''password'', ''userpass'')]
          empty_state) = empty_state\<lparr>session := [(''user_id'', PStr ''id-usuario1'')]\<rparr>"
    by (simp add: login_def empty_state_def seed_verify_def seed_defs eval_defs)
  have ne: "empty_state\<lparr>session := [(''user_id'', PStr ''id-usuario1'')]\<rparr> \<noteq> empty_state"
    by (simp add: empty_state_def)
  have st401: "status_code invalid_credentials = Some 401"
    by (simp add: invalid_credentials_def HTTP_401_UNAUTHORIZED_def)
  from login_session_atomic [OF w, of seed_verify
      "[(''username'', ''usuario1''), (''password'', ''wrongpass'')]"] f st401
  have a: "snd (login seed_verify [(''username'', ''usuario1''), (''password'', ''wrongpass'')]
          empty_state) = empty_state"
    by blast
  from login_session_atomic [OF w, of seed_verify
      "[(''username'', ''usuario1''), (''password'', ''userpass'')]"] s ne
  have "keys (session (snd (login seed_verify
          [(''username'', ''usuario1''), (''password'', ''userpass'')] empty_state)))
       = insert ''user_id'' (keys (session empty_state))"
    by metis
  then have b: "keys (session (snd (login seed_verify
          [(''username'', ''usuario1''), (''password'', ''userpass'')] empty_state)))
       = {''user_id''}"
    by (simp add: empty_state_def keys_def)
  from w a s b show ?thesis by simp
qed

text \<open>
  When the username of the body resolves to no record, \<open>login\<close> answers 401 whatever the
  verifier is: the stored hash is not read and the verification is not called.
\<close>

lemma login_unresolved_username:
  assumes "wf_store (USERS st)"
    and "\<forall>u \<in> set (USERS st). \<not> py_eq (dict_get u ''username'') (data_get data ''username'')"
  shows "login chk data st = (Inr invalid_credentials, st)"
  using find_unknown [OF assms] by (simp add: login_def)

text \<open>
  C10. \<open>login\<close> returns a response for every body that is a string map. On the seeded
  store, the body with the username \<open>admin\<close> and no \<open>password\<close> key passes \<open>None\<close> to the
  verification, which raises \<open>TypeError\<close>: the handler raises instead of answering 401.
\<close>

theorem login_missing_password_raises:
  "fst (login chk [(''username'', ''admin'')] empty_state) = Inl TypeError"
  by (simp add: login_def empty_state_def seed_defs eval_defs)

end
